theory Spec2Isabelle
  imports Main "HOL-Library.AList"
begin

section \<open>Python values the program relies on\<close>

text \<open>
  The exceptions the modelled code can raise. Every raise of the source is a
  branch of the model that returns \<open>Inl\<close> of one of these.
\<close>

datatype py_error = IndexError | ValueError | KeyError | TypeError | AttributeError | RpcError

subsection \<open>\<open>int(s, base)\<close> on a string\<close>

text \<open>
  Python's \<open>int(s, base)\<close> on a string whose characters are code points
  below 256, a \<open>char\<close> being its code point: surrounding whitespace is
  stripped, one sign is allowed, base 16 allows the prefix \<open>0x\<close>/\<open>0X\<close>
  (and one underscore after it), the digits may be separated by single
  underscores, and anything else raises ValueError (here \<open>None\<close>).

  The whitespace \<open>int\<close> strips is that of C's \<open>isspace\<close>, the code points
  9 to 13 and 32, and, of the code points from 128 on, those that are Unicode
  spaces: 133 and 160. The separators 28 to 31 are not stripped.
\<close>

definition is_space :: "char \<Rightarrow> bool" where
  "is_space c \<longleftrightarrow>
     (let n = (of_char c :: nat) in (9 \<le> n \<and> n \<le> 13) \<or> n = 32 \<or> n = 133 \<or> n = 160)"

definition digit_value :: "char \<Rightarrow> nat option" where
  "digit_value c =
     (let n = (of_char c :: nat) in
      if 48 \<le> n \<and> n \<le> 57 then Some (n - 48)
      else if 97 \<le> n \<and> n \<le> 122 then Some (n - 87)
      else if 65 \<le> n \<and> n \<le> 90 then Some (n - 55)
      else None)"

definition is_digit :: "nat \<Rightarrow> char \<Rightarrow> bool" where
  "is_digit base c = (case digit_value c of None \<Rightarrow> False | Some d \<Rightarrow> d < base)"

text \<open>
  The digit loop: \<open>acc\<close> is the number read so far, \<open>digits\<close> the number of
  digits read, \<open>prev_us\<close> says that the previous character was an
  underscore. It stops at the first character that is neither a digit of the
  base nor an underscore and returns the rest.
\<close>

fun scan_digits ::
  "nat \<Rightarrow> nat \<Rightarrow> nat \<Rightarrow> bool \<Rightarrow> string \<Rightarrow> (nat \<times> nat \<times> string) option" where
  "scan_digits base acc digits prev_us [] = (if prev_us then None else Some (acc, digits, []))"
| "scan_digits base acc digits prev_us (c # cs) =
     (if c = CHR ''_'' then (if prev_us then None else scan_digits base acc digits True cs)
      else if is_digit base c
        then scan_digits base (acc * base + the (digit_value c)) (Suc digits) False cs
      else if prev_us then None else Some (acc, digits, c # cs))"

text \<open>
  For a base that is not a power of two, a string of more digits than
  \<open>sys.get_int_max_str_digits()\<close>, 4300 unless it is set otherwise, raises
  ValueError (Python 3.11, and 3.10 from 3.10.7 on).
\<close>

definition max_str_digits :: nat where
  "max_str_digits = 4300"

definition strip_sign :: "string \<Rightarrow> bool \<times> string" where
  "strip_sign s =
     (case s of [] \<Rightarrow> (False, [])
      | c # r \<Rightarrow> if c = CHR ''+'' then (False, r) else if c = CHR ''-'' then (True, r) else (False, s))"

definition strip_hex_prefix :: "string \<Rightarrow> string" where
  "strip_hex_prefix s =
     (case s of
        c # x # r \<Rightarrow>
          if c = CHR ''0'' \<and> (x = CHR ''x'' \<or> x = CHR ''X'')
          then (case r of [] \<Rightarrow> r | u # r' \<Rightarrow> if u = CHR ''_'' then r' else r)
          else s
      | _ \<Rightarrow> s)"

definition py_int :: "nat \<Rightarrow> string \<Rightarrow> int option" where
  "py_int base s =
     (let (neg, s2) = strip_sign (dropWhile is_space s);
          s3 = (if base = 16 then strip_hex_prefix s2 else s2)
      in case s3 of
           [] \<Rightarrow> None
         | c # _ \<Rightarrow>
             if \<not> is_digit base c then None
             else (case scan_digits base 0 0 False s3 of
                     None \<Rightarrow> None
                   | Some (n, digits, rest) \<Rightarrow>
                       if base \<notin> {2, 4, 8, 16, 32} \<and> digits > max_str_digits then None
                       else if list_all is_space rest
                       then Some (if neg then - int n else int n)
                       else None))"

subsection \<open>Negative list indices\<close>

text \<open>
  \<open>xs[-k]\<close> for \<open>k \<ge> 1\<close>: the k-th element from the end, IndexError when the
  list has fewer than k elements.
\<close>

definition from_end :: "'a list \<Rightarrow> nat \<Rightarrow> py_error + 'a" where
  "from_end xs k = (if k \<le> length xs \<and> 0 < k then Inr (xs ! (length xs - k)) else Inl IndexError)"

section \<open>The vulnerability detector (detectors/detector.py)\<close>

text \<open>
  One entry of a transaction's \<open>structLogs\<close>: the opcode mnemonic, the operand
  stack as the node prints it (hexadecimal strings, top of stack last) and
  the program counter.
\<close>

record instruction =
  op :: string
  stack :: "string list"
  pc :: int

text \<open>
  The detector's three private fields. \<open>sloads\<close> is a Python dict from storage
  index to program counter, kept as an association list in insertion order
  (assigning to a present key keeps its place, as \<^const>\<open>AList.update\<close> does);
  \<open>calls\<close> is a Python set of program counters.
\<close>

record detector =
  sloads :: "(string \<times> int) list"
  calls :: "int set"
  flag :: bool

text \<open>What the detector writes with \<open>logging.critical\<close>, by rule identifier.\<close>

datatype finding = SCWE_046 | SCWE_018

definition init_detector :: detector where
  "init_detector = \<lparr>sloads = [], calls = {}, flag = False\<rparr>"

text \<open>
  The loop \<open>for pc in self.__sloads.values()\<close> of the CALL branch: it stops at
  the first recorded read below the call's program counter. True means that
  the finding was logged and the flag set.
\<close>

fun scan_reads :: "int list \<Rightarrow> int \<Rightarrow> bool" where
  "scan_reads [] call_pc = False"
| "scan_reads (p # ps) call_pc = (if p < call_pc then True else scan_reads ps call_pc)"

text \<open>
  The loop \<open>for pc in self.__calls\<close> of the SSTORE branch returns at the first
  element with \<open>pc < instruction["pc"] and not self.__flag\<close>; whatever the
  iteration order of the set, it logs once exactly when such an element exists.
\<close>

definition scan_calls :: "int set \<Rightarrow> int \<Rightarrow> bool \<Rightarrow> bool" where
  "scan_calls cs store_pc flg \<longleftrightarrow> (\<exists>p \<in> cs. p < store_pc \<and> \<not> flg)"

definition reentrancy :: "detector \<Rightarrow> instruction \<Rightarrow> py_error + (detector \<times> finding list)" where
  "reentrancy d i =
     (if op i = ''SLOAD'' then
        (case from_end (stack i) 1 of
           Inl e \<Rightarrow> Inl e
         | Inr storage_index \<Rightarrow>
             Inr (d\<lparr>sloads := AList.update storage_index (pc i) (sloads d)\<rparr>, []))
      else if op i = ''CALL'' \<and> sloads d \<noteq> [] then
        (case from_end (stack i) 1 of
           Inl e \<Rightarrow> Inl e
         | Inr gas_hex \<Rightarrow>
            (case py_int 16 gas_hex of
               None \<Rightarrow> Inl ValueError
             | Some gas \<Rightarrow>
                (case from_end (stack i) 3 of
                   Inl e \<Rightarrow> Inl e
                 | Inr value_hex \<Rightarrow>
                    (case py_int 16 value_hex of
                       None \<Rightarrow> Inl ValueError
                     | Some val \<Rightarrow>
                         if gas > 2300 \<and> val > 0 then
                           (let d' = d\<lparr>calls := insert (pc i) (calls d)\<rparr> in
                            if scan_reads (map snd (sloads d')) (pc i)
                            then Inr (d'\<lparr>flag := True\<rparr>, [SCWE_046])
                            else Inr (d', []))
                         else Inr (d, [])))))
      else if op i = ''SSTORE'' \<and> calls d \<noteq> {} then
        (case from_end (stack i) 1 of
           Inl e \<Rightarrow> Inl e
         | Inr storage_index \<Rightarrow>
             if storage_index \<in> fst ` set (sloads d) then
               (if scan_calls (calls d) (pc i) (flag d) then Inr (d, [SCWE_046]) else Inr (d, []))
             else Inr (d, []))
      else Inr (d, []))"

text \<open>
  The two operands the CALL branch reads: the gas on top of the stack and
  the value third from the top, as numbers; None where the stack is too
  short or the operand is not a hexadecimal number.
\<close>

definition call_gas :: "instruction \<Rightarrow> int option" where
  "call_gas i = (case from_end (stack i) 1 of Inl e \<Rightarrow> None | Inr h \<Rightarrow> py_int 16 h)"

definition call_value :: "instruction \<Rightarrow> int option" where
  "call_value i = (case from_end (stack i) 3 of Inl e \<Rightarrow> None | Inr h \<Rightarrow> py_int 16 h)"

definition tx_origin :: "instruction \<Rightarrow> finding list" where
  "tx_origin i = (if op i = ''ORIGIN'' then [SCWE_018] else [])"

definition reset_variables :: "detector \<Rightarrow> detector" where
  "reset_variables d = d\<lparr>sloads := [], calls := {}, flag := False\<rparr>"

text \<open>
  The inner loop of \<open>MiniFuzzer.execute_functions\<close>: every instruction of the
  trace goes through \<open>reentrancy\<close>, then through \<open>tx_origin\<close>. An exception
  leaves the loop; what was logged before it stays logged.
\<close>

record scan =
  final :: detector
  logged :: "finding list"
  raised :: "py_error option"

fun analyze_trace :: "detector \<Rightarrow> instruction list \<Rightarrow> scan" where
  "analyze_trace d [] = \<lparr>final = d, logged = [], raised = None\<rparr>"
| "analyze_trace d (i # rest) =
     (case reentrancy d i of
        Inl e \<Rightarrow> \<lparr>final = d, logged = [], raised = Some e\<rparr>
      | Inr (d', fs) \<Rightarrow>
          (let r = analyze_trace d' rest
           in r\<lparr>logged := fs @ tx_origin i @ logged r\<rparr>))"

section \<open>The fuzzer (fuzzer/mini_fuzzer.py)\<close>

subsection \<open>The syntax tree as Python data\<close>

text \<open>
  The AST that the compiler hands over is nested Python data: dicts, lists,
  strings, numbers, booleans and None. A dict is an association list with
  distinct keys.
\<close>

datatype json = JNull | JBool bool | JNum int | JStr string | JArr "json list" | JObj "(string \<times> json) list"

text \<open>\<open>x[k]\<close> for a string key: only a dict that holds the key answers.\<close>

definition subscript :: "json \<Rightarrow> string \<Rightarrow> py_error + json" where
  "subscript j k =
     (case j of
        JObj kvs \<Rightarrow> (case map_of kvs k of None \<Rightarrow> Inl KeyError | Some v \<Rightarrow> Inr v)
      | _ \<Rightarrow> Inl TypeError)"

text \<open>
  \<open>for x in j\<close>: a list gives its elements, a dict its keys, a string its
  characters; None, booleans and numbers are not iterable.
\<close>

definition iterate :: "json \<Rightarrow> py_error + json list" where
  "iterate j =
     (case j of
        JArr xs \<Rightarrow> Inr xs
      | JObj kvs \<Rightarrow> Inr (map (\<lambda>kv. JStr (fst kv)) kvs)
      | JStr s \<Rightarrow> Inr (map (\<lambda>c. JStr [c]) s)
      | _ \<Rightarrow> Inl TypeError)"

subsection \<open>The random module\<close>

text \<open>
  The generator is a sequence of natural numbers and the position of the next
  draw; every outcome of the real generator is the outcome for some sequence.
\<close>

type_synonym rng = "(nat \<Rightarrow> nat) \<times> nat"

definition randint :: "int \<Rightarrow> int \<Rightarrow> rng \<Rightarrow> int \<times> rng" where
  "randint a b r = (case r of (f, k) \<Rightarrow> (a + int (f k mod nat (b - a + 1)), (f, Suc k)))"

definition choice :: "'a list \<Rightarrow> rng \<Rightarrow> 'a \<times> rng" where
  "choice population r = (case r of (f, k) \<Rightarrow> (population ! (f k mod length population), (f, Suc k)))"

text \<open>\<open>random.choices(population, k=n)\<close>; a negative \<open>k\<close> gives the empty list, as \<open>nat\<close> does.\<close>

fun choices :: "'a list \<Rightarrow> nat \<Rightarrow> rng \<Rightarrow> 'a list \<times> rng" where
  "choices population 0 r = ([], r)"
| "choices population (Suc n) r =
     (let (x, r1) = choice population r;
          (xs, r2) = choices population n r1
      in (x # xs, r2))"

definition hex_digits :: string where
  "hex_digits = ''0123456789abcdef''"

definition letters :: string where
  "letters = ''abcdefghijklmnopqrstuvwxyzABCDEFGHIJKLMNOPQRSTUVWXYZ''"

subsection \<open>generate_inputs\<close>

datatype pyval = VNone | VInt int | VStr string | VBool bool

text \<open>\<open>param_type.replace('bytes', '')\<close>: every occurrence is removed, left to right.\<close>

fun remove_bytes :: "string \<Rightarrow> string" where
  "remove_bytes (a # b # c # d # e # rest) =
     (if [a, b, c, d, e] = ''bytes'' then remove_bytes rest
      else a # remove_bytes (b # c # d # e # rest))"
| "remove_bytes s = s"

text \<open>Continue with the value, or leave with the exception and the generator as it is.\<close>

definition or_raise :: "py_error + 'a \<Rightarrow> rng \<Rightarrow> ('a \<Rightarrow> (py_error + 'b) \<times> rng) \<Rightarrow> (py_error + 'b) \<times> rng" where
  "or_raise x r k = (case x of Inl e \<Rightarrow> (Inl e, r) | Inr v \<Rightarrow> k v)"

text \<open>\<open>param["typeDescriptions"]["typeString"]\<close>\<close>

definition type_string :: "json \<Rightarrow> py_error + json" where
  "type_string param =
     (case subscript param ''typeDescriptions'' of
        Inl e \<Rightarrow> Inl e
      | Inr td \<Rightarrow> subscript td ''typeString'')"

text \<open>
  The body of the loop over \<open>param_list\<close>: the value appended for one
  parameter. \<open>value\<close> starts as None and stays None when no branch of the
  chain matches; \<open>startswith\<close> exists on strings only.
  \<open>to_checksum_address\<close> is Web3's function, a parameter here.
\<close>

definition generate_value :: "(string \<Rightarrow> string) \<Rightarrow> json \<Rightarrow> rng \<Rightarrow> (py_error + pyval) \<times> rng" where
  "generate_value to_checksum_address param r =
     or_raise (type_string param) r (\<lambda>param_type.
       if param_type = JStr ''uint256'' \<or> param_type = JStr ''uint'' then
         (let (n, r1) = randint 0 (2 ^ 256 - 1) r in (Inr (VInt n), r1))
       else if param_type = JStr ''address'' then
         (let (cs, r1) = choices hex_digits 40 r
          in (Inr (VStr (to_checksum_address (''0x'' @ cs))), r1))
       else if param_type = JStr ''string'' then
         (let (k, r1) = randint 5 15 r;
              (cs, r2) = choices letters (nat k) r1
          in (Inr (VStr cs), r2))
       else if param_type = JStr ''bool'' then
         (let (b, r1) = choice [True, False] r in (Inr (VBool b), r1))
       else
         (case param_type of
            JStr t \<Rightarrow>
              if take 5 t = ''bytes'' then
                (if length t > 5 then
                   (case py_int 10 (remove_bytes t) of
                      None \<Rightarrow> (Inl ValueError, r)
                    | Some n_bytes \<Rightarrow>
                        (let (cs, r1) = choices hex_digits (nat (n_bytes * 2)) r
                         in (Inr (VStr (''0x'' @ cs)), r1)))
                 else
                   (let (n_bytes, r1) = randint 1 32 r;
                        (cs, r2) = choices hex_digits (nat (n_bytes * 2)) r1
                    in (Inr (VStr (''0x'' @ cs)), r2)))
              else (Inr VNone, r)
          | _ \<Rightarrow> (Inl AttributeError, r)))"

fun generate_values :: "(string \<Rightarrow> string) \<Rightarrow> json list \<Rightarrow> rng \<Rightarrow> (py_error + pyval list) \<times> rng" where
  "generate_values cs [] r = (Inr [], r)"
| "generate_values cs (param # params) r =
     (case generate_value cs param r of
        (Inl e, r1) \<Rightarrow> (Inl e, r1)
      | (Inr v, r1) \<Rightarrow>
          (case generate_values cs params r1 of
             (Inl e, r2) \<Rightarrow> (Inl e, r2)
           | (Inr vs, r2) \<Rightarrow> (Inr (v # vs), r2)))"

text \<open>The \<open>try\<close> block around the loop: any exception makes the result None.\<close>

definition generate_inputs :: "(string \<Rightarrow> string) \<Rightarrow> json \<Rightarrow> rng \<Rightarrow> pyval list option \<times> rng" where
  "generate_inputs cs param_list r =
     (case iterate param_list of
        Inl e \<Rightarrow> (None, r)
      | Inr params \<Rightarrow>
          (case generate_values cs params r of
             (Inl e, r1) \<Rightarrow> (None, r1)
           | (Inr vs, r1) \<Rightarrow> (Some vs, r1)))"

subsection \<open>generate_test_suite\<close>

text \<open>One entry of \<open>functions\<close>: the dict with the keys name, inputs and value.\<close>

record function_plan =
  fn_name :: json
  fn_inputs :: "pyval list option"
  fn_value :: int

type_synonym suite = "function_plan list \<times> pyval list option"

text \<open>The body of the inner loop, for one member \<open>vf\<close> of a contract definition.\<close>

definition visit_member :: "(string \<Rightarrow> string) \<Rightarrow> json \<Rightarrow> suite \<Rightarrow> rng \<Rightarrow> (py_error + suite) \<times> rng" where
  "visit_member cs vf acc r =
     or_raise (subscript vf ''nodeType'') r (\<lambda>node_type.
       if node_type = JStr ''FunctionDefinition'' then
         or_raise (subscript vf ''kind'') r (\<lambda>kind.
           if kind = JStr ''function'' then
             or_raise (subscript vf ''name'') r (\<lambda>nm.
             or_raise (subscript vf ''parameters'') r (\<lambda>ps.
             or_raise (subscript ps ''parameters'') r (\<lambda>param_list.
               (let (ins, r1) = generate_inputs cs param_list r in
                or_raise (subscript vf ''stateMutability'') r1 (\<lambda>mut.
                  if mut = JStr ''payable'' then
                    (let (v, r2) = randint (10 ^ 15) (5 * 10 ^ 18) r1
                     in (Inr (fst acc @ [\<lparr>fn_name = nm, fn_inputs = ins, fn_value = v\<rparr>], snd acc), r2))
                  else
                    (Inr (fst acc @ [\<lparr>fn_name = nm, fn_inputs = ins, fn_value = 0\<rparr>], snd acc), r1))))))
           else if kind = JStr ''constructor'' then
             or_raise (subscript vf ''parameters'') r (\<lambda>ps.
             or_raise (subscript ps ''parameters'') r (\<lambda>param_list.
               (let (ins, r1) = generate_inputs cs param_list r
                in (Inr (fst acc, ins), r1))))
           else (Inr acc, r))
       else (Inr acc, r))"

fun visit_members :: "(string \<Rightarrow> string) \<Rightarrow> json list \<Rightarrow> suite \<Rightarrow> rng \<Rightarrow> (py_error + suite) \<times> rng" where
  "visit_members cs [] acc r = (Inr acc, r)"
| "visit_members cs (vf # vfs) acc r =
     (case visit_member cs vf acc r of
        (Inl e, r1) \<Rightarrow> (Inl e, r1)
      | (Inr acc1, r1) \<Rightarrow> visit_members cs vfs acc1 r1)"

text \<open>The body of the outer loop, for one top-level node of the tree.\<close>

definition visit_node :: "(string \<Rightarrow> string) \<Rightarrow> json \<Rightarrow> suite \<Rightarrow> rng \<Rightarrow> (py_error + suite) \<times> rng" where
  "visit_node cs node acc r =
     or_raise (subscript node ''nodeType'') r (\<lambda>node_type.
       if node_type = JStr ''ContractDefinition'' then
         or_raise (subscript node ''nodes'') r (\<lambda>members.
         or_raise (iterate members) r (\<lambda>vfs. visit_members cs vfs acc r))
       else (Inr acc, r))"

fun visit_nodes :: "(string \<Rightarrow> string) \<Rightarrow> json list \<Rightarrow> suite \<Rightarrow> rng \<Rightarrow> (py_error + suite) \<times> rng" where
  "visit_nodes cs [] acc r = (Inr acc, r)"
| "visit_nodes cs (node # nodes) acc r =
     (case visit_node cs node acc r of
        (Inl e, r1) \<Rightarrow> (Inl e, r1)
      | (Inr acc1, r1) \<Rightarrow> visit_nodes cs nodes acc1 r1)"

text \<open>The result is \<open>(functions, constructor_inputs)\<close>, or \<open>(None, None)\<close> after any exception.\<close>

definition generate_test_suite ::
  "(string \<Rightarrow> string) \<Rightarrow> json \<Rightarrow> rng \<Rightarrow> (function_plan list option \<times> pyval list option) \<times> rng" where
  "generate_test_suite cs ast r =
     (case or_raise (subscript ast ''nodes'') r (\<lambda>ns.
           or_raise (iterate ns) r (\<lambda>nodes. visit_nodes cs nodes ([], None) r)) of
        (Inl e, r1) \<Rightarrow> ((None, None), r1)
      | (Inr (functions, constructor_inputs), r1) \<Rightarrow> ((Some functions, constructor_inputs), r1))"

subsection \<open>The chain wrapper (testnet/blockchain.py)\<close>

text \<open>
  What a \<open>debug_traceTransaction\<close> request answers: whether the transaction
  failed, and its instructions.
\<close>

record trace_result =
  failed :: bool
  structLogs :: "instruction list"

text \<open>
  Web3 and the node behind it are parameters: \<open>'w\<close> is the state of the
  chain, \<open>'c\<close> a deployed contract, \<open>'t\<close> a transaction receipt. Each request
  answers with a value or an exception and leaves the chain in a new state.
\<close>

record ('w, 'c, 't) web3 =
  w3_deploy :: "pyval list option \<Rightarrow> 'w \<Rightarrow> (py_error + 'c) \<times> 'w"
  w3_transact :: "'c \<Rightarrow> json \<Rightarrow> pyval list \<Rightarrow> int \<Rightarrow> 'w \<Rightarrow> (py_error + 't) \<times> 'w"
  w3_trace :: "'t \<Rightarrow> 'w \<Rightarrow> (py_error + trace_result) \<times> 'w"
  to_checksum_address :: "string \<Rightarrow> string"

text \<open>The \<open>try\<close> block of \<open>deploy_smart_contract\<close> turns every exception into None.\<close>

definition deploy_smart_contract ::
  "('w, 'c, 't) web3 \<Rightarrow> pyval list option \<Rightarrow> 'w \<Rightarrow> 'c option \<times> 'w" where
  "deploy_smart_contract W constructor_args w =
     (case w3_deploy W constructor_args w of
        (Inl e, w1) \<Rightarrow> (None, w1)
      | (Inr contract, w1) \<Rightarrow> (Some contract, w1))"

text \<open>
  \<open>execute_transaction\<close>: \<open>len(function["inputs"])\<close> raises TypeError when
  the inputs are None, before anything is sent; the \<open>try\<close> block turns that
  and every exception of Web3 into None.
\<close>

definition execute_transaction ::
  "('w, 'c, 't) web3 \<Rightarrow> 'c \<Rightarrow> function_plan \<Rightarrow> 'w \<Rightarrow> 't option \<times> 'w" where
  "execute_transaction W contract function w =
     (case fn_inputs function of
        None \<Rightarrow> (None, w)
      | Some ins \<Rightarrow>
          (case w3_transact W contract (fn_name function) ins (fn_value function) w of
             (Inl e, w1) \<Rightarrow> (None, w1)
           | (Inr tx_receipt, w1) \<Rightarrow> (Some tx_receipt, w1)))"

text \<open>\<open>debug_transaction\<close> has no \<open>try\<close> block: an exception of the request leaves it.\<close>

definition debug_transaction ::
  "('w, 'c, 't) web3 \<Rightarrow> 't \<Rightarrow> 'w \<Rightarrow> (py_error + trace_result) \<times> 'w" where
  "debug_transaction W tx_receipt w = w3_trace W tx_receipt w"

subsection \<open>execute_functions and run\<close>

text \<open>
  What the fuzzer does that can be seen from outside, in order: each call of
  \<open>deploy_smart_contract\<close>, \<open>execute_transaction\<close> and
  \<open>debug_transaction\<close>, each trace handed to the detector (with the
  detector's state at that moment) and each finding logged.
\<close>

datatype event =
    Deploy "pyval list option"
  | Execute function_plan
  | Debug
  | Scan detector "instruction list"
  | Critical finding

record 'w fuzzer =
  blockchain :: 'w
  rng_state :: rng
  detector_state :: detector
  journal :: "event list"

definition new_fuzzer :: "'w \<Rightarrow> rng \<Rightarrow> 'w fuzzer" where
  "new_fuzzer w r = \<lparr>blockchain = w, rng_state = r, detector_state = init_detector, journal = []\<rparr>"

fun execute_functions ::
  "('w, 'c, 't) web3 \<Rightarrow> function_plan list \<Rightarrow> 'c \<Rightarrow> 'w fuzzer \<Rightarrow> py_error option \<times> 'w fuzzer" where
  "execute_functions W [] contract s = (None, s)"
| "execute_functions W (function # functions) contract s =
     (case execute_transaction W contract function (blockchain s) of
        (None, w1) \<Rightarrow>
          execute_functions W functions contract
            (s\<lparr>blockchain := w1, journal := journal s @ [Execute function]\<rparr>)
      | (Some tx_receipt, w1) \<Rightarrow>
          (case debug_transaction W tx_receipt w1 of
             (Inl e, w2) \<Rightarrow>
               (Some e, s\<lparr>blockchain := w2, journal := journal s @ [Execute function, Debug]\<rparr>)
           | (Inr result, w2) \<Rightarrow>
               if \<not> failed result then
                 (let sc = analyze_trace (detector_state s) (structLogs result);
                      j = journal s @ [Execute function, Debug,
                                       Scan (detector_state s) (structLogs result)]
                                    @ map Critical (logged sc)
                  in case raised sc of
                       Some e \<Rightarrow>
                         (Some e, s\<lparr>blockchain := w2, detector_state := final sc, journal := j\<rparr>)
                     | None \<Rightarrow>
                         execute_functions W functions contract
                           (s\<lparr>blockchain := w2,
                              detector_state := reset_variables (final sc),
                              journal := j\<rparr>))
               else
                 execute_functions W functions contract
                   (s\<lparr>blockchain := w2, journal := journal s @ [Execute function, Debug]\<rparr>)))"

text \<open>
  The loop of \<open>run\<close>, by the number of rounds left. When the test suite is
  \<open>(None, None)\<close> the deployment is requested all the same, and
  \<open>execute_functions(None, ...)\<close> raises TypeError at its \<open>for\<close>.
\<close>

fun run_rounds ::
  "('w, 'c, 't) web3 \<Rightarrow> json \<Rightarrow> nat \<Rightarrow> 'w fuzzer \<Rightarrow> py_error option \<times> 'w fuzzer" where
  "run_rounds W ast 0 s = (None, s)"
| "run_rounds W ast (Suc n) s =
     (let ((functions, constructor_inputs), r1) =
            generate_test_suite (to_checksum_address W) ast (rng_state s);
          (deployed_contract, w1) = deploy_smart_contract W constructor_inputs (blockchain s);
          s1 = s\<lparr>blockchain := w1, rng_state := r1,
                 journal := journal s @ [Deploy constructor_inputs]\<rparr>
      in case deployed_contract of
           None \<Rightarrow> run_rounds W ast n s1
         | Some contract \<Rightarrow>
             (case functions of
                None \<Rightarrow> (Some TypeError, s1)
              | Some fs \<Rightarrow>
                  (case execute_functions W fs contract s1 of
                     (Some e, s2) \<Rightarrow> (Some e, s2)
                   | (None, s2) \<Rightarrow> run_rounds W ast n s2)))"

text \<open>\<open>range(num_tests)\<close> is empty for a negative number.\<close>

definition run :: "('w, 'c, 't) web3 \<Rightarrow> json \<Rightarrow> int \<Rightarrow> 'w fuzzer \<Rightarrow> py_error option \<times> 'w fuzzer" where
  "run W ast num_tests s = run_rounds W ast (nat num_tests) s"

section \<open>Example instructions\<close>

text \<open>
  Instructions as a node prints them, for the concrete runs below. A CALL
  has its seven operands on the stack: the gas on top, the value third from
  the top. SLOAD and SSTORE have the storage slot on top.
\<close>

definition sload_ins :: "string \<Rightarrow> int \<Rightarrow> instruction" where
  "sload_ins slot p = \<lparr>op = ''SLOAD'', stack = [slot], pc = p\<rparr>"

definition call_ins :: "string \<Rightarrow> string \<Rightarrow> int \<Rightarrow> instruction" where
  "call_ins gas_hex value_hex p =
     \<lparr>op = ''CALL'', stack = [''0x0'', ''0x0'', ''0x0'', ''0x0'', value_hex, ''0xaa'', gas_hex], pc = p\<rparr>"

definition sstore_ins :: "string \<Rightarrow> int \<Rightarrow> instruction" where
  "sstore_ins slot p = \<lparr>op = ''SSTORE'', stack = [''0x1'', slot], pc = p\<rparr>"

definition origin_ins :: "int \<Rightarrow> instruction" where
  "origin_ins p = \<lparr>op = ''ORIGIN'', stack = [], pc = p\<rparr>"

section \<open>Example contracts and an example chain\<close>

text \<open>A parameter of the AST with the given type string.\<close>

definition param_of_type :: "string \<Rightarrow> json" where
  "param_of_type t =
     JObj [(''name'', JStr ''x''), (''nodeType'', JStr ''VariableDeclaration''),
           (''typeDescriptions'', JObj [(''typeIdentifier'', JStr ''t''), (''typeString'', JStr t)])]"

text \<open>A function definition as solc 0.5 and later print it, with the key \<open>kind\<close>.\<close>

definition function_node :: "string \<Rightarrow> string \<Rightarrow> json list \<Rightarrow> json" where
  "function_node nm mut params =
     JObj [(''nodeType'', JStr ''FunctionDefinition''), (''kind'', JStr ''function''),
           (''name'', JStr nm), (''stateMutability'', JStr mut),
           (''parameters'', JObj [(''nodeType'', JStr ''ParameterList''), (''parameters'', JArr params)])]"

definition source_unit :: "json list \<Rightarrow> json" where
  "source_unit members =
     JObj [(''nodeType'', JStr ''SourceUnit''),
           (''nodes'', JArr [JObj [(''nodeType'', JStr ''PragmaDirective'')],
                            JObj [(''nodeType'', JStr ''ContractDefinition''), (''name'', JStr ''Bank''),
                                  (''nodes'', JArr members)]])]"

text \<open>A contract with two functions without parameters.\<close>

definition bank_ast :: json where
  "bank_ast = source_unit [function_node ''withdraw'' ''nonpayable'' [],
                           function_node ''owner'' ''view'' []]"

text \<open>A contract whose first function takes an array, a type \<open>generate_inputs\<close> fails on.\<close>

definition vault_ast :: json where
  "vault_ast = source_unit [function_node ''deposit'' ''nonpayable'' [param_of_type ''bytes32[]''],
                            function_node ''owner'' ''view'' []]"

text \<open>
  The tree solc 0.4 prints for a contract with one function: a function
  definition has the key \<open>isConstructor\<close> and no key \<open>kind\<close>.
\<close>

definition legacy_ast :: json where
  "legacy_ast =
     source_unit [JObj [(''nodeType'', JStr ''FunctionDefinition''), (''isConstructor'', JBool False),
                        (''name'', JStr ''withdraw''), (''stateMutability'', JStr ''nonpayable''),
                        (''parameters'', JObj [(''nodeType'', JStr ''ParameterList''),
                                               (''parameters'', JArr [])])]]"

text \<open>
  A chain that accepts everything: its state counts the requests, a contract
  and a receipt are the number of the request that made them, and every
  trace is a read, a risky call and a write to the slot read.
\<close>

definition risky_trace :: "instruction list" where
  "risky_trace = [sload_ins ''0x0'' 10, call_ins ''0x2710'' ''0x1'' 20, sstore_ins ''0x0'' 30]"

definition test_web3 :: "(nat, nat, nat) web3" where
  "test_web3 =
     \<lparr>w3_deploy = (\<lambda>args w. (Inr w, Suc w)),
      w3_transact = (\<lambda>c nm ins v w. (Inr w, Suc w)),
      w3_trace = (\<lambda>t w. (Inr \<lparr>failed = False, structLogs = risky_trace\<rparr>, Suc w)),
      to_checksum_address = (\<lambda>a. a)\<rparr>"

definition rng0 :: rng where
  "rng0 = ((\<lambda>k. 7 * k + 3), 0)"

text \<open>A trace handed to the detector is handed to a detector in its initial state.\<close>

fun pristine_event :: "event \<Rightarrow> bool" where
  "pristine_event (Scan d tr) = (d = init_detector)"
| "pristine_event e = True"

section \<open>Properties of the detector\<close>

lemmas run_simps = init_detector_def reentrancy_def from_end_def tx_origin_def py_int_def
  strip_sign_def strip_hex_prefix_def is_digit_def digit_value_def is_space_def max_str_digits_def
  sload_ins_def
  call_ins_def sstore_ins_def origin_ins_def scan_calls_def call_gas_def call_value_def

lemma scan_reads_iff: "scan_reads ps c \<longleftrightarrow> (\<exists>p \<in> set ps. p < c)"
  by (induction ps) auto

lemma from_end_top: "from_end xs (Suc 0) = (if xs = [] then Inl IndexError else Inr (last xs))"
  by (cases xs rule: rev_cases) (simp_all add: from_end_def)


lemma reentrancy_other_op:
  "op i \<noteq> ''SLOAD'' \<Longrightarrow> op i \<noteq> ''CALL'' \<Longrightarrow> op i \<noteq> ''SSTORE'' \<Longrightarrow> reentrancy d i = Inr (d, [])"
  by (simp add: reentrancy_def)

lemma reset_is_init: "reset_variables d = init_detector"
  by (cases d) (simp add: reset_variables_def init_detector_def)

subsection \<open>The CALL branch\<close>

text \<open>
  C1, as the code has it. A CALL whose gas (top of the stack) exceeds 2300
  and whose value (third from the top) is positive, at a program counter
  above some recorded read, logs the reentrancy finding once for this
  instruction, records its program counter and sets the flag. The branch
  does not look at the flag: the statement holds whatever \<open>flag d\<close> is, so a
  later CALL of that kind in the same trace logs the finding again.
\<close>

theorem risky_call_after_read_reports:
  assumes "op i = ''CALL''"
    and "call_gas i = Some gas" and "2300 < gas"
    and "call_value i = Some val" and "0 < val"
    and "\<exists>p \<in> snd ` set (sloads d). p < pc i"
  shows "reentrancy d i = Inr (d\<lparr>calls := insert (pc i) (calls d), flag := True\<rparr>, [SCWE_046])"
proof -
  from assms(6) have ne: "sloads d \<noteq> []" by auto
  from assms(6) have sc: "scan_reads (map snd (sloads d)) (pc i)"
    by (simp add: scan_reads_iff)
  from assms(2) obtain g where g: "from_end (stack i) 1 = Inr g" "py_int 16 g = Some gas"
    by (auto simp: call_gas_def split: sum.splits)
  from assms(4) obtain v where v: "from_end (stack i) 3 = Inr v" "py_int 16 v = Some val"
    by (auto simp: call_value_def split: sum.splits)
  show ?thesis
    using assms(1,3,5) ne sc g v by (simp add: reentrancy_def)
qed

text \<open>The theorem at a detector whose flag is already set: the finding is logged all the same.\<close>

theorem risky_call_after_read_reports_witness:
  "reentrancy \<lparr>sloads = [(''0x0'', 10)], calls = {}, flag = True\<rparr> (call_ins ''0x2710'' ''0x1'' 20)
   = Inr (\<lparr>sloads = [(''0x0'', 10)], calls = {20}, flag = True\<rparr>, [SCWE_046])"
proof -
  let ?i = "call_ins ''0x2710'' ''0x1'' 20"
  let ?d = "\<lparr>sloads = [(''0x0'', 10)], calls = {}, flag = True\<rparr>"
  have a: "op ?i = ''CALL''" by (simp add: call_ins_def)
  have b: "call_gas ?i = Some 10000" by (simp add: run_simps)
  have c: "call_value ?i = Some 1" by (simp add: run_simps)
  have e: "\<exists>p \<in> snd ` set (sloads ?d). p < pc ?i" by (simp add: call_ins_def)
  show ?thesis
    using risky_call_after_read_reports [OF a b _ c _ e] by (simp add: call_ins_def)
qed

text \<open>
  C1 as stated fails: a read at 10 followed by two such calls, at 20 and at
  30, logs the finding twice in one trace.
\<close>

theorem two_risky_calls_report_twice:
  "logged (analyze_trace init_detector
     [sload_ins ''0x0'' 10, call_ins ''0x2710'' ''0x1'' 20, call_ins ''0x2710'' ''0x1'' 30])
   = [SCWE_046, SCWE_046]"
  by (simp add: run_simps)

subsection \<open>The SSTORE branch\<close>

text \<open>
  C2, as the code has it. An SSTORE that arrives when a risky call is
  recorded, on a slot that was read, logs the finding once for the
  instruction when the flag is clear and some recorded call lies below its
  program counter, and not at all otherwise; the detector's state, the flag
  included, stays as it was.
\<close>

theorem sstore_reports_once_per_write:
  assumes "op i = ''SSTORE''" and "calls d \<noteq> {}"
    and "from_end (stack i) 1 = Inr slot" and "slot \<in> fst ` set (sloads d)"
  shows "reentrancy d i =
           Inr (d, if \<not> flag d \<and> (\<exists>p \<in> calls d. p < pc i) then [SCWE_046] else [])"
  using assms by (auto simp: reentrancy_def scan_calls_def)

theorem sstore_reports_once_per_write_witness:
  "reentrancy \<lparr>sloads = [(''0x0'', 50)], calls = {20, 25}, flag = False\<rparr> (sstore_ins ''0x0'' 30)
   = Inr (\<lparr>sloads = [(''0x0'', 50)], calls = {20, 25}, flag = False\<rparr>, [SCWE_046])"
proof -
  let ?i = "sstore_ins ''0x0'' 30"
  let ?d = "\<lparr>sloads = [(''0x0'', 50)], calls = {20, 25}, flag = False\<rparr>"
  have a: "op ?i = ''SSTORE''" by (simp add: sstore_ins_def)
  have b: "calls ?d \<noteq> {}" by simp
  have c: "from_end (stack ?i) 1 = Inr ''0x0''" by (simp add: sstore_ins_def from_end_def)
  have e: "''0x0'' \<in> fst ` set (sloads ?d)" by simp
  show ?thesis
    using sstore_reports_once_per_write [OF a b c e] by (simp add: sstore_ins_def)
qed

text \<open>
  C2 as stated fails: after a read at 50 and risky calls at 20 and 25 the
  flag is clear and both calls lie below a write at 30 to the slot read, yet
  the write logs the finding once, not once for each of the two calls.
\<close>

theorem sstore_after_two_calls_reports_once:
  "calls (final (analyze_trace init_detector
       [sload_ins ''0x0'' 50, call_ins ''0x2710'' ''0x1'' 20, call_ins ''0x2710'' ''0x1'' 25])) = {20, 25}
   \<and> \<not> flag (final (analyze_trace init_detector
       [sload_ins ''0x0'' 50, call_ins ''0x2710'' ''0x1'' 20, call_ins ''0x2710'' ''0x1'' 25]))
   \<and> logged (analyze_trace init_detector
       [sload_ins ''0x0'' 50, call_ins ''0x2710'' ''0x1'' 20, call_ins ''0x2710'' ''0x1'' 25,
        sstore_ins ''0x0'' 30]) = [SCWE_046]"
  by (simp add: run_simps insert_commute)

subsection \<open>When the detector raises\<close>

lemma sload_raises:
  "op i = ''SLOAD'' \<Longrightarrow> reentrancy d i = Inl e \<longleftrightarrow> stack i = [] \<and> e = IndexError"
  by (auto simp: reentrancy_def from_end_top)

lemma sstore_raises:
  "op i = ''SSTORE'' \<Longrightarrow>
     reentrancy d i = Inl e \<longleftrightarrow> calls d \<noteq> {} \<and> stack i = [] \<and> e = IndexError"
  by (auto simp: reentrancy_def from_end_top)

lemma from_end_third: "from_end xs 3 = (if length xs < 3 then Inl IndexError else Inr (xs ! (length xs - 3)))"
  by (auto simp: from_end_def)

lemma call_raises:
  assumes "op i = ''CALL''"
  shows "reentrancy d i = Inl e \<longleftrightarrow>
     sloads d \<noteq> [] \<and>
       (if stack i = [] then e = IndexError
        else if call_gas i = None then e = ValueError
        else if length (stack i) < 3 then e = IndexError
        else call_value i = None \<and> e = ValueError)"
proof (cases "sloads d = []")
  case True
  with assms show ?thesis by (simp add: reentrancy_def)
next
  case False
  show ?thesis
  proof (cases "stack i = []")
    case True
    with assms False show ?thesis by (auto simp: reentrancy_def from_end_def)
  next
    case ne: False
    then have top: "from_end (stack i) 1 = Inr (last (stack i))"
      using from_end_top [of "stack i"] by simp
    show ?thesis
    proof (cases "py_int 16 (last (stack i))")
      case None
      with assms False ne top show ?thesis
        by (auto simp: reentrancy_def call_gas_def)
    next
      case (Some gas)
      with assms False ne top show ?thesis
        by (auto simp: reentrancy_def call_gas_def call_value_def from_end_third Let_def
                 split: option.splits)
    qed
  qed
qed

text \<open>
  C5, as the code has it. \<open>reentrancy\<close> raises exactly when the branch it
  takes reads an operand that is not there, with the exception of that read:
  an SLOAD with an empty stack raises IndexError; a CALL, once a read is
  recorded, raises IndexError on an empty stack, else ValueError when the
  gas on top is not a hexadecimal number, else IndexError when the stack has
  fewer than three operands, else ValueError when the value third from the top
  is not a hexadecimal number; an SSTORE, once a risky call is recorded, raises
  IndexError on an empty stack. On every other instruction it returns.
\<close>

theorem reentrancy_raises_iff:
  "reentrancy d i = Inl e \<longleftrightarrow>
     (op i = ''SLOAD'' \<and> stack i = [] \<and> e = IndexError)
   \<or> (op i = ''CALL'' \<and> sloads d \<noteq> [] \<and>
        (if stack i = [] then e = IndexError
         else if call_gas i = None then e = ValueError
         else if length (stack i) < 3 then e = IndexError
         else call_value i = None \<and> e = ValueError))
   \<or> (op i = ''SSTORE'' \<and> calls d \<noteq> {} \<and> stack i = [] \<and> e = IndexError)"
proof -
  consider (sload) "op i = ''SLOAD''" | (call) "op i = ''CALL''" | (sstore) "op i = ''SSTORE''"
    | (other) "op i \<noteq> ''SLOAD''" "op i \<noteq> ''CALL''" "op i \<noteq> ''SSTORE''"
    by blast
  then show ?thesis
  proof cases
    case sload
    then show ?thesis using sload_raises [of i d e] by simp
  next
    case call
    then show ?thesis using call_raises [of i d e] by simp
  next
    case sstore
    then show ?thesis using sstore_raises [of i d e] by simp
  next
    case other
    then show ?thesis by (simp add: reentrancy_other_op)
  qed
qed

text \<open>
  A CALL after a read: with two operands only the value is missing, and a gas
  that starts with the separator 31 is not a number.
\<close>

theorem reentrancy_raises_iff_witness:
  "reentrancy \<lparr>sloads = [(''0x0'', 10)], calls = {}, flag = False\<rparr>
          \<lparr>op = ''CALL'', stack = [''0xaa'', ''0x2710''], pc = 20\<rparr> = Inl IndexError
   \<and> reentrancy \<lparr>sloads = [(''0x0'', 10)], calls = {}, flag = False\<rparr>
          (call_ins (CHR 0x1F # ''0x8fd'') ''0x1'' 20) = Inl ValueError"
proof -
  have a: "reentrancy \<lparr>sloads = [(''0x0'', 10)], calls = {}, flag = False\<rparr>
          \<lparr>op = ''CALL'', stack = [''0xaa'', ''0x2710''], pc = 20\<rparr> = Inl IndexError"
    using reentrancy_raises_iff [of "\<lparr>sloads = [(''0x0'', 10)], calls = {}, flag = False\<rparr>"
      "\<lparr>op = ''CALL'', stack = [''0xaa'', ''0x2710''], pc = 20\<rparr>" IndexError]
    by (simp add: run_simps)
  have b: "reentrancy \<lparr>sloads = [(''0x0'', 10)], calls = {}, flag = False\<rparr>
          (call_ins (CHR 0x1F # ''0x8fd'') ''0x1'' 20) = Inl ValueError"
    using reentrancy_raises_iff [of "\<lparr>sloads = [(''0x0'', 10)], calls = {}, flag = False\<rparr>"
      "call_ins (CHR 0x1F # ''0x8fd'') ''0x1'' 20" ValueError]
    by (simp add: run_simps)
  from a b show ?thesis by simp
qed

text \<open>
  C5 as stated fails: an SLOAD with an empty stack raises IndexError, the
  scan stops there, and the ORIGIN after it is never seen.
\<close>

theorem sload_on_empty_stack_raises:
  "reentrancy init_detector \<lparr>op = ''SLOAD'', stack = [], pc = 0\<rparr> = Inl IndexError
   \<and> raised (analyze_trace init_detector [\<lparr>op = ''SLOAD'', stack = [], pc = 0\<rparr>, origin_ins 1])
       = Some IndexError
   \<and> logged (analyze_trace init_detector [\<lparr>op = ''SLOAD'', stack = [], pc = 0\<rparr>, origin_ins 1]) = []"
  by (simp add: run_simps)

subsection \<open>Calls that are not risky\<close>

lemma reentrancy_benign_call:
  assumes "calls d = {}"
    and "op i = ''CALL'' \<longrightarrow> (\<exists>g v. call_gas i = Some g \<and> call_value i = Some v \<and> (g \<le> 2300 \<or> v = 0))"
    and "reentrancy d i = Inr (d', fs)"
  shows "calls d' = {} \<and> fs = []"
proof (cases "op i = ''CALL''")
  case True
  with assms(2) obtain g v where gv: "call_gas i = Some g" "call_value i = Some v" "g \<le> 2300 \<or> v = 0"
    by blast
  from True gv assms(1,3) show ?thesis
    by (auto simp: reentrancy_def call_gas_def call_value_def split: sum.splits if_splits)
next
  case False
  with assms(1,3) show ?thesis
    by (auto simp: reentrancy_def split: sum.splits if_splits)
qed

text \<open>
  C6. From a detector with no risky call recorded (a new or reset one), a
  trace in which every CALL has gas at most 2300 or value 0 never logs the
  reentrancy finding, whatever reads and writes it holds.
\<close>

theorem benign_calls_never_report:
  assumes "calls d = {}"
    and "\<forall>i \<in> set tr. op i = ''CALL'' \<longrightarrow>
           (\<exists>g v. call_gas i = Some g \<and> call_value i = Some v \<and> (g \<le> 2300 \<or> v = 0))"
  shows "SCWE_046 \<notin> set (logged (analyze_trace d tr))"
  using assms
proof (induction tr arbitrary: d)
  case Nil
  then show ?case by simp
next
  case (Cons i tr)
  show ?case
  proof (cases "reentrancy d i")
    case (Inl e)
    then show ?thesis by simp
  next
    case (Inr p)
    obtain d' fs where p: "p = (d', fs)" by (cases p)
    from Cons.prems have "op i = ''CALL'' \<longrightarrow>
        (\<exists>g v. call_gas i = Some g \<and> call_value i = Some v \<and> (g \<le> 2300 \<or> v = 0))"
      by simp
    with Cons.prems(1) Inr p have step: "calls d' = {}" "fs = []"
      using reentrancy_benign_call [of d i d' fs] by simp_all
    from Cons.prems(2) have "\<forall>i \<in> set tr. op i = ''CALL'' \<longrightarrow>
        (\<exists>g v. call_gas i = Some g \<and> call_value i = Some v \<and> (g \<le> 2300 \<or> v = 0))"
      by simp
    with step(1) have "SCWE_046 \<notin> set (logged (analyze_trace d' tr))"
      by (rule Cons.IH)
    with Inr p step(2) show ?thesis
      by (simp add: Let_def tx_origin_def)
  qed
qed

text \<open>A read, a call with gas 2300, a call with value 0 and a write to the slot read.\<close>

theorem benign_calls_never_report_witness:
  "SCWE_046 \<notin> set (logged (analyze_trace init_detector
     [sload_ins ''0x0'' 10, call_ins ''0x8fc'' ''0x1'' 20, call_ins ''0x2710'' ''0x0'' 25,
      sstore_ins ''0x0'' 30]))"
proof -
  have a: "calls init_detector = {}" by (simp add: init_detector_def)
  have b: "\<forall>i \<in> set [sload_ins ''0x0'' 10, call_ins ''0x8fc'' ''0x1'' 20,
                      call_ins ''0x2710'' ''0x0'' 25, sstore_ins ''0x0'' 30].
             op i = ''CALL'' \<longrightarrow>
             (\<exists>g v. call_gas i = Some g \<and> call_value i = Some v \<and> (g \<le> 2300 \<or> v = 0))"
    by (simp add: run_simps)
  show ?thesis using benign_calls_never_report [OF a b] .
qed

subsection \<open>The ORIGIN rule\<close>





subsection \<open>Reset and the other opcodes\<close>

text \<open>
  C8. \<open>reset_variables\<close> turns any detector state into the state of a new
  detector, so a trace analysed after it gives what a new detector gives:
  the same findings, the same final state, the same exception if any.
\<close>

theorem reset_gives_fresh_detector:
  "reset_variables d = init_detector
   \<and> analyze_trace (reset_variables d) tr = analyze_trace init_detector tr"
proof -
  have "reset_variables d = init_detector"
    by (cases d) (simp add: reset_variables_def init_detector_def)
  then show ?thesis by simp
qed

theorem reset_gives_fresh_detector_witness:
  "reset_variables \<lparr>sloads = [(''0x0'', 10)], calls = {20}, flag = True\<rparr> = init_detector
   \<and> logged (analyze_trace (reset_variables \<lparr>sloads = [(''0x0'', 10)], calls = {20}, flag = True\<rparr>)
        [sstore_ins ''0x0'' 30]) = []"
  using reset_gives_fresh_detector [of "\<lparr>sloads = [(''0x0'', 10)], calls = {20}, flag = True\<rparr>"
      "[sstore_ins ''0x0'' 30]"]
  by (simp add: run_simps)

text \<open>
  C10. An instruction whose opcode is none of SLOAD, CALL, SSTORE and ORIGIN
  goes through both rules without a finding and leaves the detector's state
  as it was.
\<close>

theorem other_opcodes_change_nothing:
  assumes "op i \<notin> {''SLOAD'', ''CALL'', ''SSTORE'', ''ORIGIN''}"
  shows "reentrancy d i = Inr (d, []) \<and> tx_origin i = []"
  using assms by (simp add: reentrancy_def tx_origin_def)

theorem other_opcodes_change_nothing_witness:
  "reentrancy \<lparr>sloads = [(''0x0'', 10)], calls = {20}, flag = False\<rparr> \<lparr>op = ''ADD'', stack = [], pc = 31\<rparr>
     = Inr (\<lparr>sloads = [(''0x0'', 10)], calls = {20}, flag = False\<rparr>, [])
   \<and> tx_origin \<lparr>op = ''ADD'', stack = [], pc = 31\<rparr> = []"
  using other_opcodes_change_nothing [of "\<lparr>op = ''ADD'', stack = [], pc = 31\<rparr>"
      "\<lparr>sloads = [(''0x0'', 10)], calls = {20}, flag = False\<rparr>"]
  by simp

section \<open>Properties of the fuzzer\<close>

lemmas gen_simps = generate_inputs_def iterate_def generate_value_def type_string_def
  subscript_def or_raise_def param_of_type_def

lemmas suite_simps = generate_test_suite_def visit_node_def visit_member_def source_unit_def
  function_node_def bank_ast_def legacy_ast_def rng0_def

lemmas chain_simps = run_def new_fuzzer_def deploy_smart_contract_def execute_transaction_def
  debug_transaction_def test_web3_def risky_trace_def

lemma generate_values_length:
  "generate_values cs ps r0 = (Inr vs, r1) \<Longrightarrow>
     length vs = length ps
     \<and> (\<forall>k < length ps. \<exists>ra rb. generate_value cs (ps ! k) ra = (Inr (vs ! k), rb))"
proof (induction ps arbitrary: vs r0)
  case Nil
  then show ?case by simp
next
  case (Cons p ps)
  from Cons.prems obtain v ra where v: "generate_value cs p r0 = (Inr v, ra)"
    by (auto split: prod.splits sum.splits)
  with Cons.prems obtain ws where ws: "generate_values cs ps ra = (Inr ws, r1)" "vs = v # ws"
    by (auto split: prod.splits sum.splits)
  from Cons.IH [OF ws(1)] have ih: "length ws = length ps"
    "\<forall>k < length ps. \<exists>ra rb. generate_value cs (ps ! k) ra = (Inr (ws ! k), rb)"
    by simp_all
  show ?case
  proof (intro conjI allI impI)
    show "length vs = length (p # ps)" using ih(1) ws(2) by simp
  next
    fix k assume k: "k < length (p # ps)"
    show "\<exists>ra rb. generate_value cs ((p # ps) ! k) ra = (Inr (vs ! k), rb)"
    proof (cases k)
      case 0
      with v ws(2) have "generate_value cs ((p # ps) ! k) r0 = (Inr (vs ! k), ra)" by simp
      then show ?thesis by blast
    next
      case (Suc j)
      with k ih(2) ws(2) show ?thesis by simp
    qed
  qed
qed

lemma unrecognized_value:
  assumes "type_string p = Inr (JStr t)"
    and "t \<notin> {''uint256'', ''uint'', ''address'', ''string'', ''bool''}"
    and "take 5 t \<noteq> ''bytes''"
  shows "generate_value cs p r = (Inr VNone, r)"
  using assms by (simp add: generate_value_def or_raise_def)

subsection \<open>Parameters of a type the generator does not know\<close>

text \<open>
  C3, as the code has it. A parameter whose type string is none of uint256,
  uint, address, string and bool and does not begin with \<open>bytes\<close> raises
  nothing and draws nothing: the value appended for it is None. A list that
  \<open>generate_inputs\<close> returns has one value for each parameter, with None at
  every place of such a parameter; there is no partial list.
\<close>

theorem unrecognized_type_yields_placeholder:
  assumes "type_string p = Inr (JStr t)"
    and "t \<notin> {''uint256'', ''uint'', ''address'', ''string'', ''bool''}"
    and "take 5 t \<noteq> ''bytes''"
  shows "generate_value cs p r = (Inr VNone, r)
       \<and> (generate_inputs cs (JArr ps) r0 = (Some vs, r1) \<longrightarrow>
            length vs = length ps \<and> (\<forall>k < length ps. ps ! k = p \<longrightarrow> vs ! k = VNone))"
proof (intro conjI impI allI)
  show "generate_value cs p r = (Inr VNone, r)"
    using assms by (rule unrecognized_value)
next
  assume "generate_inputs cs (JArr ps) r0 = (Some vs, r1)"
  then have gv: "generate_values cs ps r0 = (Inr vs, r1)"
    by (auto simp: generate_inputs_def iterate_def split: prod.splits sum.splits)
  from generate_values_length [OF gv] show "length vs = length ps" by simp
next
  fix k
  assume a: "generate_inputs cs (JArr ps) r0 = (Some vs, r1)" and k: "k < length ps" and pk: "ps ! k = p"
  from a have gv: "generate_values cs ps r0 = (Inr vs, r1)"
    by (auto simp: generate_inputs_def iterate_def split: prod.splits sum.splits)
  from generate_values_length [OF gv] k pk
  obtain ra rb where "generate_value cs p ra = (Inr (vs ! k), rb)" by blast
  with unrecognized_value [OF assms, of cs ra] show "vs ! k = VNone" by simp
qed

text \<open>
  C3 as stated fails: for one parameter of type \<open>uint8\<close> the generation does
  not fail, it returns the list that holds None.
\<close>

theorem unrecognized_type_is_not_an_error:
  "generate_inputs (\<lambda>a. a) (JArr [param_of_type ''uint8'']) rng0 = (Some [VNone], rng0)"
  by (simp add: gen_simps)

theorem unrecognized_type_yields_placeholder_witness:
  "generate_value (\<lambda>a. a) (param_of_type ''int256'') rng0 = (Inr VNone, rng0)
   \<and> fst (generate_inputs (\<lambda>a. a) (JArr [param_of_type ''bool'', param_of_type ''int256'']) rng0)
       = Some [VBool False, VNone]"
proof -
  have a: "type_string (param_of_type ''int256'') = Inr (JStr ''int256'')"
    by (simp add: gen_simps)
  have b: "''int256'' \<notin> {''uint256'', ''uint'', ''address'', ''string'', ''bool''}" by simp
  have c: "take 5 ''int256'' \<noteq> ''bytes''" by simp
  have d: "fst (generate_inputs (\<lambda>a. a) (JArr [param_of_type ''bool'', param_of_type ''int256'']) rng0)
       = Some [VBool False, VNone]"
    by code_simp
  show ?thesis
    using unrecognized_type_yields_placeholder [OF a b c, of "\<lambda>a. a" rng0] d by simp
qed

subsection \<open>A round whose test suite could not be built\<close>

text \<open>
  C4, on the code. For the tree of a solc 0.4 contract \<open>generate_test_suite\<close>
  raises KeyError at \<open>vf["kind"]\<close> and returns \<open>(None, None)\<close>. \<open>run\<close> does
  not skip the round: it requests the deployment, with no constructor
  arguments, and when the contract is deployed \<open>execute_functions\<close> raises
  TypeError on the functions that are None, which ends the whole run in its
  first round.
\<close>

theorem failed_build_still_deploys:
  "generate_test_suite (to_checksum_address test_web3) legacy_ast rng0 = ((None, None), rng0)
   \<and> run test_web3 legacy_ast 2 (new_fuzzer 0 rng0)
       = (Some TypeError,
          \<lparr>blockchain = 1, rng_state = rng0, detector_state = init_detector, journal = [Deploy None]\<rparr>)"
  by (simp add: suite_simps chain_simps subscript_def iterate_def or_raise_def eval_nat_numeral)

text \<open>
  When \<open>generate_inputs\<close> fails for one function the test suite is built all
  the same, with None as that function's inputs: the contract is deployed,
  \<open>execute_transaction\<close> sends nothing for that function and the next one runs.
\<close>

lemma failed_inputs_keep_the_round:
  "fst (generate_test_suite (\<lambda>a. a) vault_ast rng0)
     = (Some [\<lparr>fn_name = JStr ''deposit'', fn_inputs = None, fn_value = 0\<rparr>,
              \<lparr>fn_name = JStr ''owner'', fn_inputs = Some [], fn_value = 0\<rparr>], None)
   \<and> fst (run test_web3 vault_ast 1 (new_fuzzer 0 rng0)) = None
   \<and> journal (snd (run test_web3 vault_ast 1 (new_fuzzer 0 rng0)))
     = [Deploy None,
        Execute \<lparr>fn_name = JStr ''deposit'', fn_inputs = None, fn_value = 0\<rparr>,
        Execute \<lparr>fn_name = JStr ''owner'', fn_inputs = Some [], fn_value = 0\<rparr>, Debug,
        Scan init_detector risky_trace, Critical SCWE_046]"
  by (simp add: suite_simps gen_simps chain_simps vault_ast_def run_simps reset_is_init Let_def
        remove_bytes.simps)

subsection \<open>The detector between two traces\<close>

lemma pristine_critical: "list_all pristine_event (map Critical fs)"
  by (induction fs) simp_all

lemma execute_functions_pristine:
  assumes "detector_state s = init_detector" and "list_all pristine_event (journal s)"
    and "execute_functions W fs c s = (err, s')"
  shows "list_all pristine_event (journal s')
       \<and> (err = None \<longrightarrow> detector_state s' = init_detector)"
  using assms
proof (induction fs arbitrary: s)
  case Nil
  then show ?case by auto
next
  case (Cons f fs)
  obtain rc w1 where tx: "execute_transaction W c f (blockchain s) = (rc, w1)"
    by (cases "execute_transaction W c f (blockchain s)")
  show ?case
  proof (cases rc)
    case None
    let ?s1 = "s\<lparr>blockchain := w1, journal := journal s @ [Execute f]\<rparr>"
    from Cons.prems tx None have "execute_functions W fs c ?s1 = (err, s')" by simp
    moreover have "detector_state ?s1 = init_detector" using Cons.prems(1) by simp
    moreover have "list_all pristine_event (journal ?s1)" using Cons.prems(2) by simp
    ultimately show ?thesis using Cons.IH [of ?s1] by blast
  next
    case (Some receipt)
    obtain res w2 where dbg: "debug_transaction W receipt w1 = (res, w2)"
      by (cases "debug_transaction W receipt w1")
    show ?thesis
    proof (cases res)
      case (Inl e)
      with Cons.prems tx Some dbg show ?thesis by auto
    next
      case (Inr result)
      show ?thesis
      proof (cases "failed result")
        case True
        let ?s1 = "s\<lparr>blockchain := w2, journal := journal s @ [Execute f, Debug]\<rparr>"
        from Cons.prems tx Some dbg Inr True have "execute_functions W fs c ?s1 = (err, s')" by simp
        moreover have "detector_state ?s1 = init_detector" using Cons.prems(1) by simp
        moreover have "list_all pristine_event (journal ?s1)" using Cons.prems(2) by simp
        ultimately show ?thesis using Cons.IH [of ?s1] by blast
      next
        case False
        let ?sc = "analyze_trace (detector_state s) (structLogs result)"
        let ?j = "journal s @ [Execute f, Debug, Scan (detector_state s) (structLogs result)]
                    @ map Critical (logged ?sc)"
        show ?thesis
        proof (cases "raised ?sc")
          case (Some e)
          with Cons.prems(3) tx \<open>rc = Some receipt\<close> dbg Inr False
          have "err = Some e" "journal s' = ?j" by (auto simp: Let_def)
          with Cons.prems(1,2) show ?thesis by (simp add: pristine_critical)
        next
          case None
          let ?s1 = "s\<lparr>blockchain := w2, detector_state := reset_variables (final ?sc), journal := ?j\<rparr>"
          from Cons.prems(3) tx \<open>rc = Some receipt\<close> dbg Inr False None
          have "execute_functions W fs c ?s1 = (err, s')" by (simp add: Let_def)
          moreover have "detector_state ?s1 = init_detector" by (simp add: reset_is_init)
          moreover have "list_all pristine_event (journal ?s1)"
            using Cons.prems(1,2) by (simp add: pristine_critical)
          ultimately show ?thesis using Cons.IH [of ?s1] by blast
        qed
      qed
    qed
  qed
qed

lemma run_rounds_pristine:
  assumes "detector_state s = init_detector" and "list_all pristine_event (journal s)"
    and "run_rounds W ast n s = (err, s')"
  shows "list_all pristine_event (journal s')
       \<and> (err = None \<longrightarrow> detector_state s' = init_detector)"
  using assms
proof (induction n arbitrary: s)
  case 0
  then show ?case by auto
next
  case (Suc n)
  obtain fns constructor_inputs r1 where
    gen: "generate_test_suite (to_checksum_address W) ast (rng_state s) = ((fns, constructor_inputs), r1)"
    by (metis prod.collapse)
  obtain deployed w1 where dep: "deploy_smart_contract W constructor_inputs (blockchain s) = (deployed, w1)"
    by (cases "deploy_smart_contract W constructor_inputs (blockchain s)")
  let ?s1 = "s\<lparr>blockchain := w1, rng_state := r1, journal := journal s @ [Deploy constructor_inputs]\<rparr>"
  have d1: "detector_state ?s1 = init_detector" using Suc.prems(1) by simp
  have j1: "list_all pristine_event (journal ?s1)" using Suc.prems(2) by simp
  show ?case
  proof (cases deployed)
    case None
    with Suc.prems(3) gen dep have "run_rounds W ast n ?s1 = (err, s')" by simp
    with d1 j1 show ?thesis using Suc.IH [of ?s1] by blast
  next
    case (Some contract)
    show ?thesis
    proof (cases fns)
      case None
      with Suc.prems(3) gen dep Some have "err = Some TypeError" "s' = ?s1" by auto
      with j1 show ?thesis by simp
    next
      case fs: (Some fs)
      obtain e2 s2 where ex: "execute_functions W fs contract ?s1 = (e2, s2)"
        by (cases "execute_functions W fs contract ?s1")
      from execute_functions_pristine [OF d1 j1 ex]
      have inv2: "list_all pristine_event (journal s2)" "e2 = None \<longrightarrow> detector_state s2 = init_detector"
        by simp_all
      show ?thesis
      proof (cases e2)
        case None
        with Suc.prems(3) gen dep Some fs ex have "run_rounds W ast n s2 = (err, s')" by simp
        with inv2 None show ?thesis using Suc.IH [of s2] by blast
      next
        case (Some e)
        with Suc.prems(3) gen dep \<open>deployed = Some contract\<close> fs ex have "err = Some e" "s' = s2" by auto
        with inv2 show ?thesis by simp
      qed
    qed
  qed
qed

text \<open>
  C9. In a run of a new fuzzer, over all rounds and calls, every trace handed
  to the detector finds it in its initial state: no read, no risky call and
  no flag of an earlier trace is left. A call that is not mined or that
  failed leaves the detector alone, each analysed trace is followed by
  \<open>reset_variables\<close>, and an exception inside an analysis ends the run. A
  run that ends without exception leaves the detector in its initial state.
\<close>

theorem every_scan_starts_pristine:
  assumes "run W ast num_tests (new_fuzzer w r) = (err, s')"
  shows "(\<forall>d tr. Scan d tr \<in> set (journal s') \<longrightarrow> d = init_detector)
       \<and> (err = None \<longrightarrow> detector_state s' = init_detector)"
proof -
  have a: "detector_state (new_fuzzer w r) = init_detector" by (simp add: new_fuzzer_def)
  have b: "list_all pristine_event (journal (new_fuzzer w r))" by (simp add: new_fuzzer_def)
  from assms have c: "run_rounds W ast (nat num_tests) (new_fuzzer w r) = (err, s')"
    by (simp add: run_def)
  from run_rounds_pristine [OF a b c]
  have p: "list_all pristine_event (journal s')" and d: "err = None \<longrightarrow> detector_state s' = init_detector"
    by simp_all
  have "\<forall>d tr. Scan d tr \<in> set (journal s') \<longrightarrow> d = init_detector"
  proof (intro allI impI)
    fix d tr assume "Scan d tr \<in> set (journal s')"
    with p have "pristine_event (Scan d tr)" unfolding list_all_iff by blast
    then show "d = init_detector" by simp
  qed
  with d show ?thesis by simp
qed


text \<open>
  One round on a contract with two functions, on a chain whose every trace
  sets the detector's three fields: both traces are scanned from the initial state.
\<close>

theorem every_scan_starts_pristine_witness:
  "run test_web3 bank_ast 1 (new_fuzzer 0 rng0) =
     (None,
      \<lparr>blockchain = 5, rng_state = rng0, detector_state = init_detector,
       journal =
         [Deploy None,
          Execute \<lparr>fn_name = JStr ''withdraw'', fn_inputs = Some [], fn_value = 0\<rparr>, Debug,
          Scan init_detector risky_trace, Critical SCWE_046,
          Execute \<lparr>fn_name = JStr ''owner'', fn_inputs = Some [], fn_value = 0\<rparr>, Debug,
          Scan init_detector risky_trace, Critical SCWE_046]\<rparr>)
   \<and> detector_state (snd (run test_web3 bank_ast 1 (new_fuzzer 0 rng0))) = init_detector"
proof -
  have tr: "analyze_trace init_detector risky_trace
      = \<lparr>final = \<lparr>sloads = [(''0x0'', 10)], calls = {20}, flag = True\<rparr>,
         logged = [SCWE_046], raised = None\<rparr>"
    by (simp add: run_simps risky_trace_def)
  have su: "generate_test_suite (\<lambda>a. a) bank_ast rng0
      = ((Some [\<lparr>fn_name = JStr ''withdraw'', fn_inputs = Some [], fn_value = 0\<rparr>,
               \<lparr>fn_name = JStr ''owner'', fn_inputs = Some [], fn_value = 0\<rparr>], None), rng0)"
    by (simp add: suite_simps gen_simps)
  have r: "run test_web3 bank_ast 1 (new_fuzzer 0 rng0) =
     (None,
      \<lparr>blockchain = 5, rng_state = rng0, detector_state = init_detector,
       journal =
         [Deploy None,
          Execute \<lparr>fn_name = JStr ''withdraw'', fn_inputs = Some [], fn_value = 0\<rparr>, Debug,
          Scan init_detector risky_trace, Critical SCWE_046,
          Execute \<lparr>fn_name = JStr ''owner'', fn_inputs = Some [], fn_value = 0\<rparr>, Debug,
          Scan init_detector risky_trace, Critical SCWE_046]\<rparr>)"
    by (simp add: run_def new_fuzzer_def deploy_smart_contract_def execute_transaction_def
          debug_transaction_def test_web3_def su tr reset_is_init Let_def)
  from every_scan_starts_pristine [OF r] r show ?thesis by simp
qed

end
